theory Spec2Isabelle
  imports Main
begin

section \<open>Data model\<close>

text \<open>
  Strings are byte lists: a literal of the source that is not ASCII is written as the bytes
  of its UTF-8 encoding. A rejected promise or a thrown exception is the \<open>Inl\<close> side of a
  sum; \<open>Error msg\<close> is the JavaScript \<^verbatim>\<open>new Error(msg)\<close>, \<open>External msg\<close> a failure raised
  inside one of the external collaborators (loader, embedding provider, vector store,
  retriever, language model).
\<close>

datatype error = Error string | External string

record Document =
  pageContent :: string
  metadata :: "(string \<times> string) list"

text \<open>\<^verbatim>\<open>export interface RAGState { question; documents; answer }\<close>\<close>

record RAGState =
  question :: string
  documents :: "Document list"
  answer :: string

datatype role = System | Human

type_synonym prompt = "(role \<times> string) list"

type_synonym retriever_fn = "string \<Rightarrow> error + Document list"

type_synonym model_fn = "prompt \<Rightarrow> error + string"

type_synonym node_fn = "RAGState \<Rightarrow> error + RAGState"

text \<open>
  \<^verbatim>\<open>class ChatService\<close>: \<^verbatim>\<open>retriever\<close> starts as \<^verbatim>\<open>null\<close>, \<^verbatim>\<open>graph\<close> is declared and not
  assigned, \<^verbatim>\<open>model\<close> is set by the constructor.
\<close>

record ChatService =
  retriever :: "retriever_fn option"
  model :: model_fn
  graph :: "node_fn option"

section \<open>JavaScript helpers\<close>

text \<open>\<^verbatim>\<open>a || b\<close> on strings: the empty string is the only falsy string.\<close>

definition js_or :: "string \<Rightarrow> string \<Rightarrow> string" where
  "js_or a b = (if a = [] then b else a)"

text \<open>\<^verbatim>\<open>Array.prototype.join(sep)\<close> on an array of strings.\<close>

fun join :: "string \<Rightarrow> string list \<Rightarrow> string" where
  "join sep [] = []"
| "join sep [x] = x"
| "join sep (x # y # ys) = x @ sep @ join sep (y # ys)"

definition LF :: char where
  "LF = CHR 0x0A"

section \<open>ChatService: the prompt template and the chain\<close>

text \<open>The four literals the system message starts with, in the order of the source.\<close>

definition SYSTEM_LITERAL_1 :: string where
  "SYSTEM_LITERAL_1 = 
       [CHR 0xEB, CHR 0x8B, CHR 0xB9, CHR 0xEC, CHR 0x8B, CHR 0xA0, CHR 0xEC, CHR 0x9D,
       CHR 0x80, CHR 0x20, CHR 0xEC, CHR 0xA0, CHR 0x9C, CHR 0xEA, CHR 0xB3, CHR 0xB5,
       CHR 0xEB, CHR 0x90, CHR 0x9C, CHR 0x20, CHR 0xEB, CHR 0xAC, CHR 0xB8, CHR 0xEC,
       CHR 0x84, CHR 0x9C, CHR 0xEB, CHR 0xA5, CHR 0xBC, CHR 0x20, CHR 0xEC, CHR 0xB0,
       CHR 0xB8, CHR 0xEC, CHR 0xA1, CHR 0xB0, CHR 0xED, CHR 0x95, CHR 0x98, CHR 0xEC,
       CHR 0x97, CHR 0xAC, CHR 0x20, CHR 0xEC, CHR 0x82, CHR 0xAC, CHR 0xEC, CHR 0x9A,
       CHR 0xA9, CHR 0xEC, CHR 0x9E, CHR 0x90, CHR 0xEC, CHR 0x9D, CHR 0x98, CHR 0x20,
       CHR 0xEC, CHR 0xA7, CHR 0x88, CHR 0xEB, CHR 0xAC, CHR 0xB8, CHR 0xEC, CHR 0x97,
       CHR 0x90, CHR 0x20, CHR 0xEB, CHR 0x8B, CHR 0xB5, CHR 0xEB, CHR 0xB3, CHR 0x80,
       CHR 0xED, CHR 0x95, CHR 0x98, CHR 0xEB, CHR 0x8A, CHR 0x94, CHR 0x20, CHR 0xEC,
       CHR 0xA0, CHR 0x84, CHR 0xEB, CHR 0xAC, CHR 0xB8, CHR 0xEA, CHR 0xB0, CHR 0x80,
       CHR 0x20, CHR 0xEC, CHR 0xB1, CHR 0x97, CHR 0xEB, CHR 0xB4, CHR 0x87, CHR 0xEC,
       CHR 0x9E, CHR 0x85, CHR 0xEB, CHR 0x8B, CHR 0x88, CHR 0xEB, CHR 0x8B, CHR 0xA4,
       CHR 0x2E, CHR 0x20]"

definition SYSTEM_LITERAL_2 :: string where
  "SYSTEM_LITERAL_2 = 
       [CHR 0xEC, CHR 0x82, CHR 0xAC, CHR 0xEC, CHR 0x9A, CHR 0xA9, CHR 0xEC, CHR 0x9E,
       CHR 0x90, CHR 0xEC, CHR 0x97, CHR 0x90, CHR 0xEA, CHR 0xB2, CHR 0x8C, CHR 0x20,
       CHR 0xEC, CHR 0xA0, CHR 0x9C, CHR 0xEA, CHR 0xB3, CHR 0xB5, CHR 0xEB, CHR 0x90,
       CHR 0x9C, CHR 0x20, CHR 0x3C, CHR 0x43, CHR 0x6F, CHR 0x6E, CHR 0x74, CHR 0x65,
       CHR 0x78, CHR 0x74, CHR 0x3E, CHR 0x20, CHR 0xEB, CHR 0x82, CHR 0xB4, CHR 0xEC,
       CHR 0x97, CHR 0x90, CHR 0xEC, CHR 0x84, CHR 0x9C, CHR 0xEB, CHR 0xA7, CHR 0x8C,
       CHR 0x20, CHR 0xEB, CHR 0x8B, CHR 0xB5, CHR 0xEB, CHR 0xB3, CHR 0x80, CHR 0xED,
       CHR 0x95, CHR 0xB4, CHR 0xEC, CHR 0x95, CHR 0xBC, CHR 0x20, CHR 0xED, CHR 0x95,
       CHR 0xA9, CHR 0xEB, CHR 0x8B, CHR 0x88, CHR 0xEB, CHR 0x8B, CHR 0xA4, CHR 0x2E, CHR 0x20]"

definition SYSTEM_LITERAL_3 :: string where
  "SYSTEM_LITERAL_3 = 
       [CHR 0xEB, CHR 0xA7, CHR 0x8C, CHR 0xEC, CHR 0x95, CHR 0xBD, CHR 0x20, CHR 0x3C,
       CHR 0x43, CHR 0x6F, CHR 0x6E, CHR 0x74, CHR 0x65, CHR 0x78, CHR 0x74, CHR 0x3E,
       CHR 0xEC, CHR 0x97, CHR 0x90, CHR 0xEC, CHR 0x84, CHR 0x9C, CHR 0x20, CHR 0xEB,
       CHR 0x8B, CHR 0xB5, CHR 0xEB, CHR 0xB3, CHR 0x80, CHR 0xEC, CHR 0x9D, CHR 0x84,
       CHR 0x20, CHR 0xEC, CHR 0xB0, CHR 0xBE, CHR 0xEC, CHR 0x9D, CHR 0x84, CHR 0x20,
       CHR 0xEC, CHR 0x88, CHR 0x98, CHR 0x20, CHR 0xEC, CHR 0x97, CHR 0x86, CHR 0xEB,
       CHR 0x8B, CHR 0xA4, CHR 0xEB, CHR 0xA9, CHR 0xB4, CHR 0x2C, CHR 0x20]"

definition SYSTEM_LITERAL_4 :: string where
  "SYSTEM_LITERAL_4 = 
       [CHR 0x2A, CHR 0x2A, CHR 0x22, CHR 0xEC, CHR 0xA3, CHR 0x84, CHR 0xEC, CHR 0x86,
       CHR 0xA1, CHR 0xED, CHR 0x95, CHR 0x98, CHR 0xEC, CHR 0xA7, CHR 0x80, CHR 0xEB,
       CHR 0xA7, CHR 0x8C, CHR 0x2C, CHR 0x20, CHR 0xEC, CHR 0xA0, CHR 0x9C, CHR 0xEA,
       CHR 0xB0, CHR 0x80, CHR 0x20, CHR 0xEC, CHR 0xB0, CHR 0xB8, CHR 0xEC, CHR 0xA1,
       CHR 0xB0, CHR 0xED, CHR 0x95, CHR 0xA0, CHR 0x20, CHR 0xEC, CHR 0x88, CHR 0x98,
       CHR 0x20, CHR 0xEC, CHR 0x9E, CHR 0x88, CHR 0xEB, CHR 0x8A, CHR 0x94, CHR 0x20,
       CHR 0xEB, CHR 0xAC, CHR 0xB8, CHR 0xEC, CHR 0x84, CHR 0x9C, CHR 0xEC, CHR 0x97,
       CHR 0x90, CHR 0xEC, CHR 0x84, CHR 0x9C, CHR 0xEB, CHR 0x8A, CHR 0x94, CHR 0x20,
       CHR 0xED, CHR 0x95, CHR 0xB4, CHR 0xEB, CHR 0x8B, CHR 0xB9, CHR 0x20, CHR 0xEB,
       CHR 0x82, CHR 0xB4, CHR 0xEC, CHR 0x9A, CHR 0xA9, CHR 0xEC, CHR 0x9D, CHR 0x84,
       CHR 0x20, CHR 0xEC, CHR 0xB0, CHR 0xBE, CHR 0xEC, CHR 0x9D, CHR 0x84, CHR 0x20,
       CHR 0xEC, CHR 0x88, CHR 0x98, CHR 0x20, CHR 0xEC, CHR 0x97, CHR 0x86, CHR 0xEC,
       CHR 0x8A, CHR 0xB5, CHR 0xEB, CHR 0x8B, CHR 0x88, CHR 0xEB, CHR 0x8B, CHR 0xA4,
       CHR 0x2E, CHR 0x22, CHR 0x2A, CHR 0x2A, CHR 0xEB, CHR 0x9D, CHR 0xBC, CHR 0xEA,
       CHR 0xB3, CHR 0xA0, CHR 0x20, CHR 0xEB, CHR 0x8B, CHR 0xB5, CHR 0xEB, CHR 0xB3,
       CHR 0x80, CHR 0xED, CHR 0x95, CHR 0x98, CHR 0xEC, CHR 0x84, CHR 0xB8, CHR 0xEC,
       CHR 0x9A, CHR 0x94, CHR 0x2E]"

definition SYSTEM_INSTRUCTION :: string where
  "SYSTEM_INSTRUCTION =
     SYSTEM_LITERAL_1 @ SYSTEM_LITERAL_2 @ SYSTEM_LITERAL_3 @ SYSTEM_LITERAL_4"

text \<open>
  A message template is its literal text with the \<^verbatim>\<open>{name}\<close> placeholders marked:
  \<^verbatim>\<open>'...' + '\n\n<Context>\n{context}\n</Context>'\<close> for the system turn and
  \<^verbatim>\<open>'{question}'\<close> for the human turn.
\<close>

datatype piece = Lit string | Var string

definition promptTemplate :: "(role \<times> piece list) list" where
  "promptTemplate =
     [(System, [Lit SYSTEM_INSTRUCTION, Lit ([LF, LF] @ ''<Context>'' @ [LF]),
                Var ''context'', Lit ([LF] @ ''</Context>'')]),
      (Human, [Var ''question''])]"

text \<open>Formatting replaces each placeholder by its value; a missing value is an error.\<close>

fun format_pieces :: "(string \<rightharpoonup> string) \<Rightarrow> piece list \<Rightarrow> error + string" where
  "format_pieces vals [] = Inr []"
| "format_pieces vals (Lit s # ps) =
     (case format_pieces vals ps of Inl e \<Rightarrow> Inl e | Inr rest \<Rightarrow> Inr (s @ rest))"
| "format_pieces vals (Var v # ps) =
     (case vals v of
        None \<Rightarrow> Inl (Error (''Missing value for input '' @ v))
      | Some s \<Rightarrow>
          (case format_pieces vals ps of Inl e \<Rightarrow> Inl e | Inr rest \<Rightarrow> Inr (s @ rest)))"

fun format_messages ::
  "(string \<rightharpoonup> string) \<Rightarrow> (role \<times> piece list) list \<Rightarrow> error + prompt" where
  "format_messages vals [] = Inr []"
| "format_messages vals ((r, ps) # ms) =
     (case format_pieces vals ps of
        Inl e \<Rightarrow> Inl e
      | Inr s \<Rightarrow>
          (case format_messages vals ms of Inl e \<Rightarrow> Inl e | Inr rest \<Rightarrow> Inr ((r, s) # rest)))"

text \<open>
  The first step of \<^verbatim>\<open>ragChain\<close>: the object of two functions of the input state,
  \<^verbatim>\<open>context\<close> (the page contents joined by \<^verbatim>\<open>'\n\n'\<close>) and \<^verbatim>\<open>question\<close>.
\<close>

definition chain_context :: "RAGState \<Rightarrow> string" where
  "chain_context input = join [LF, LF] (map pageContent (documents input))"

definition chain_inputs :: "RAGState \<Rightarrow> (string \<rightharpoonup> string)" where
  "chain_inputs input =
     [''context'' \<mapsto> chain_context input, ''question'' \<mapsto> question input]"

definition assemble :: "RAGState \<Rightarrow> error + prompt" where
  "assemble input = format_messages (chain_inputs input) promptTemplate"

text \<open>
  \<^verbatim>\<open>RunnableSequence.from([{context, question}, promptTemplate, this.model,
  new StringOutputParser()])\<close>; the output parser returns the model's text as it is.
\<close>

definition ragChain :: "model_fn \<Rightarrow> RAGState \<Rightarrow> error + string" where
  "ragChain m input =
     (case assemble input of
        Inl e \<Rightarrow> Inl e
      | Inr p \<Rightarrow> (case m p of Inl e \<Rightarrow> Inl e | Inr text \<Rightarrow> Inr text))"

section \<open>ChatService: the nodes and the graph\<close>

text \<open>
  \<^verbatim>\<open>retrieve: async (state) => { const docs = await this.retriever.invoke(state.question);
  return { ...state, documents: docs }; }\<close>
\<close>

definition retrieve :: "retriever_fn \<Rightarrow> RAGState \<Rightarrow> error + RAGState" where
  "retrieve r state =
     (case r (question state) of
        Inl e \<Rightarrow> Inl e
      | Inr docs \<Rightarrow> Inr (state\<lparr>documents := docs\<rparr>))"

text \<open>
  \<^verbatim>\<open>generate: async (state) => { const answer = await ragChain.invoke({question:
  state.question, documents: state.documents, answer: state.answer || ''});
  return { ...state, answer: answer }; }\<close>
\<close>

definition generate_input :: "RAGState \<Rightarrow> RAGState" where
  "generate_input state =
     \<lparr>question = question state, documents = documents state,
      answer = js_or (answer state) []\<rparr>"

definition generate :: "model_fn \<Rightarrow> RAGState \<Rightarrow> error + RAGState" where
  "generate m state =
     (case ragChain m (generate_input state) of
        Inl e \<Rightarrow> Inl e
      | Inr a \<Rightarrow> Inr (state\<lparr>answer := a\<rparr>))"

definition START :: string where
  "START = ''__start__''"

definition END :: string where
  "END = ''__end__''"

text \<open>
  The \<^verbatim>\<open>nodes\<close> object of \<^verbatim>\<open>initializeGraph\<close>: the two node functions under the names
  the edges use. The source builds it beside the graph builder and never hands it to the
  builder: there is no \<^verbatim>\<open>addNode\<close> call.
\<close>

definition nodes :: "retriever_fn \<Rightarrow> model_fn \<Rightarrow> (string \<times> node_fn) list" where
  "nodes r m = [(''retrieve'', retrieve r), (''generate'', generate m)]"

text \<open>
  The graph builder: the nodes registered with it and the edges added to it.
  \<^verbatim>\<open>new StateGraph({channels})\<close> starts with neither, and \<^verbatim>\<open>initializeGraph\<close> makes three
  \<^verbatim>\<open>addEdge\<close> calls on it and no other call before \<^verbatim>\<open>compile\<close>.
\<close>

record StateGraph =
  graph_nodes :: "(string \<times> node_fn) list"
  graph_edges :: "(string \<times> string) list"

definition new_StateGraph :: StateGraph where
  "new_StateGraph = \<lparr>graph_nodes = [], graph_edges = []\<rparr>"

definition addEdge :: "string \<Rightarrow> string \<Rightarrow> StateGraph \<Rightarrow> StateGraph" where
  "addEdge startKey endKey g = g\<lparr>graph_edges := graph_edges g @ [(startKey, endKey)]\<rparr>"

definition graphBuilder :: StateGraph where
  "graphBuilder =
     addEdge ''generate'' END
       (addEdge ''retrieve'' ''generate'' (addEdge START ''retrieve'' new_StateGraph))"

text \<open>
  Modelled from the spec: the executor of a compiled graph and the compilation itself
  (\<^verbatim>\<open>compile\<close> and \<^verbatim>\<open>invoke\<close> belong to the graph library, which is not part of the
  sources). Section 4.4: the run follows the fixed edges from the start marker, each node
  receives the state its predecessor returned, a failure in a node aborts the run, and the
  run ends at the end marker. A node is looked up among the registered nodes by the name
  the edge gives; the first component of the result lists the nodes that were called, each
  with the state it was given. The first argument bounds the number of steps. A builder
  whose edges name a node that was never registered is not compiled: \<^verbatim>\<open>compile\<close> throws.
\<close>

fun run_from ::
  "nat \<Rightarrow> (string \<times> node_fn) list \<Rightarrow> (string \<times> string) list \<Rightarrow> string \<Rightarrow> RAGState
     \<Rightarrow> (string \<times> RAGState) list \<times> (error + RAGState)" where
  "run_from 0 ns es cur state = ([], Inl (Error ''Recursion limit reached''))"
| "run_from (Suc fuel) ns es cur state =
     (case map_of es cur of
        None \<Rightarrow> ([], Inl (Error (''No edge from '' @ cur)))
      | Some nxt \<Rightarrow>
          if nxt = END then ([], Inr state)
          else
            (case map_of ns nxt of
               None \<Rightarrow> ([], Inl (Error (''Unknown node '' @ nxt)))
             | Some f \<Rightarrow>
                 (case f state of
                    Inl e \<Rightarrow> ([(nxt, state)], Inl e)
                  | Inr state' \<Rightarrow>
                      (case run_from fuel ns es nxt state' of
                         (log, res) \<Rightarrow> ((nxt, state) # log, res)))))"

definition RECURSION_LIMIT :: nat where
  "RECURSION_LIMIT = 25"

definition unknown_nodes :: "StateGraph \<Rightarrow> string list" where
  "unknown_nodes g =
     filter (\<lambda>n. n \<noteq> START \<and> n \<noteq> END \<and> map_of (graph_nodes g) n = None)
       (concat (map (\<lambda>(a, b). [a, b]) (graph_edges g)))"


definition compile :: "StateGraph \<Rightarrow> error + node_fn" where
  "compile g =
     (case unknown_nodes g of
        [] \<Rightarrow>
          Inr (\<lambda>state. snd (run_from RECURSION_LIMIT (graph_nodes g) (graph_edges g)
                               START state))
      | n # ns \<Rightarrow> Inl (Error (''Unknown node '' @ n)))"

section \<open>The vector store\<close>

text \<open>
  The options object both services pass to the store client, and the external
  collaborators. A vector's entries are never inspected here.
\<close>

record chroma_args =
  collectionName :: string
  url :: string

type_synonym vector = "int list"

type_synonym collection = "(vector \<times> Document) list"

type_synonym vector_store = "string \<times> string \<Rightarrow> collection"

record collaborators =
  pdf_load :: "error + Document list"
  split_text :: "nat \<Rightarrow> nat \<Rightarrow> string \<Rightarrow> string list"
  embed :: "string \<Rightarrow> error + vector"
  store_reachable :: bool
  similarity_search :: "collection \<Rightarrow> string \<Rightarrow> error + Document list"

definition collection_of :: "chroma_args \<Rightarrow> vector_store \<Rightarrow> collection" where
  "collection_of args st = st (url args, collectionName args)"

fun embed_all :: "(string \<Rightarrow> error + vector) \<Rightarrow> string list \<Rightarrow> error + vector list" where
  "embed_all f [] = Inr []"
| "embed_all f (t # ts) =
     (case f t of
        Inl e \<Rightarrow> Inl e
      | Inr v \<Rightarrow> (case embed_all f ts of Inl e \<Rightarrow> Inl e | Inr vs \<Rightarrow> Inr (v # vs)))"

text \<open>
  Modelled from the spec: the store client's two entry points (library code). Section 6:
  \<^verbatim>\<open>upsert(collectionName, storageLocation, [(chunk, vector)])\<close>, and binding to an
  existing collection without writing to it; section 4.2: a write appends to the
  collection and deletes nothing; section 7: a write can fail.
\<close>

definition Chroma_fromDocuments ::
  "collaborators \<Rightarrow> Document list \<Rightarrow> chroma_args \<Rightarrow> vector_store \<Rightarrow> error + vector_store" where
  "Chroma_fromDocuments ext docs args st =
     (case embed_all (embed ext) (map pageContent docs) of
        Inl e \<Rightarrow> Inl e
      | Inr vectors \<Rightarrow>
          if store_reachable ext
          then Inr (st((url args, collectionName args) := collection_of args st @ zip vectors docs))
          else Inl (External ''vector store write failed''))"

definition Chroma_fromExistingCollection ::
  "collaborators \<Rightarrow> chroma_args \<Rightarrow> vector_store \<Rightarrow> error + retriever_fn" where
  "Chroma_fromExistingCollection ext args st =
     (if store_reachable ext
      then Inr (similarity_search ext (collection_of args st))
      else Inl (External ''vector store unreachable''))"

section \<open>ChatService: initialization and chat\<close>

definition ChatService_COLLECTION_NAME :: string where
  "ChatService_COLLECTION_NAME = ''test_collection_name''"

definition ChatService_VECTOR_STORE_PATH :: string where
  "ChatService_VECTOR_STORE_PATH = ''./chroma_data''"

definition ChatService_chroma_args :: chroma_args where
  "ChatService_chroma_args =
     \<lparr>collectionName = ChatService_COLLECTION_NAME, url = ''http://host.docker.internal:8000''\<rparr>"

definition new_ChatService :: "model_fn \<Rightarrow> ChatService" where
  "new_ChatService m = \<lparr>retriever = None, model = m, graph = None\<rparr>"

definition initializeRetriever ::
  "collaborators \<Rightarrow> vector_store \<Rightarrow> ChatService \<Rightarrow> error + ChatService" where
  "initializeRetriever ext st svc =
     (case Chroma_fromExistingCollection ext ChatService_chroma_args st of
        Inl e \<Rightarrow> Inl e
      | Inr r \<Rightarrow> Inr (svc\<lparr>retriever := Some r\<rparr>))"

text \<open>
  \<^verbatim>\<open>this.graph = graphBuilder.compile()\<close> is the last statement but one of
  \<^verbatim>\<open>initializeGraph\<close>: when \<^verbatim>\<open>compile\<close> throws, the field stays unassigned and the
  exception leaves \<^verbatim>\<open>initializeGraph\<close> and rejects \<^verbatim>\<open>onModuleInit\<close>.
\<close>

definition initializeGraph :: "ChatService \<Rightarrow> error + ChatService" where
  "initializeGraph svc =
     (case compile graphBuilder of
        Inl e \<Rightarrow> Inl e
      | Inr g \<Rightarrow> Inr (svc\<lparr>graph := Some g\<rparr>))"

definition onModuleInit ::
  "collaborators \<Rightarrow> vector_store \<Rightarrow> ChatService \<Rightarrow> error + ChatService" where
  "onModuleInit ext st svc =
     (case initializeRetriever ext st svc of
        Inl e \<Rightarrow> Inl e
      | Inr svc' \<Rightarrow> initializeGraph svc')"

definition NOT_INITIALIZED :: error where
  "NOT_INITIALIZED = Error ''Chat graph not initialized.''"

definition NO_ANSWER :: string where
  "NO_ANSWER = 
       [CHR 0xEB, CHR 0x8B, CHR 0xB5, CHR 0xEB, CHR 0xB3, CHR 0x80, CHR 0xEC, CHR 0x9D,
       CHR 0x84, CHR 0x20, CHR 0xEC, CHR 0x83, CHR 0x9D, CHR 0xEC, CHR 0x84, CHR 0xB1,
       CHR 0xED, CHR 0x95, CHR 0x98, CHR 0xEC, CHR 0xA7, CHR 0x80, CHR 0x20, CHR 0xEB,
       CHR 0xAA, CHR 0xBB, CHR 0xED, CHR 0x95, CHR 0x98, CHR 0xEC, CHR 0x98, CHR 0x80,
       CHR 0xEC, CHR 0x8A, CHR 0xB5, CHR 0xEB, CHR 0x8B, CHR 0x88, CHR 0xEB, CHR 0x8B,
       CHR 0xA4, CHR 0x2E]"

definition initialState :: "string \<Rightarrow> RAGState" where
  "initialState q = \<lparr>question = q, documents = [], answer = []\<rparr>"

definition chat :: "ChatService \<Rightarrow> string \<Rightarrow> error + string" where
  "chat svc q =
     (case graph svc of
        None \<Rightarrow> Inl NOT_INITIALIZED
      | Some g \<Rightarrow>
          (case g (initialState q) of
             Inl e \<Rightarrow> Inl e
           | Inr result \<Rightarrow> Inr (js_or (answer result) NO_ANSWER)))"

section \<open>IngestionService\<close>

definition IngestionService_COLLECTION_NAME :: string where
  "IngestionService_COLLECTION_NAME = ''test_collection_name''"

definition IngestionService_VECTOR_STORE_PATH :: string where
  "IngestionService_VECTOR_STORE_PATH = ''chroma_data''"

definition IngestionService_chroma_args :: chroma_args where
  "IngestionService_chroma_args =
     \<lparr>collectionName = IngestionService_COLLECTION_NAME,
      url = ''http://host.docker.internal:8000''\<rparr>"

definition loadDocuments :: "collaborators \<Rightarrow> error + Document list" where
  "loadDocuments ext = pdf_load ext"

text \<open>
  The splitter is the library's; its \<^verbatim>\<open>splitDocuments\<close> splits each document's text and
  gives every piece the metadata of the document it came from. The text splitting itself
  is the collaborator \<open>split_text\<close>, called with the chunk size and the overlap.
\<close>

definition splitter_splitDocuments ::
  "collaborators \<Rightarrow> nat \<Rightarrow> nat \<Rightarrow> Document list \<Rightarrow> Document list" where
  "splitter_splitDocuments ext chunkSize chunkOverlap docs =
     concat (map (\<lambda>d. map (\<lambda>t. \<lparr>pageContent = t, metadata = metadata d\<rparr>)
                         (split_text ext chunkSize chunkOverlap (pageContent d))) docs)"

definition splitDocuments :: "collaborators \<Rightarrow> Document list \<Rightarrow> Document list" where
  "splitDocuments ext docs = splitter_splitDocuments ext 1000 200 docs"

definition embedAndStore ::
  "collaborators \<Rightarrow> Document list \<Rightarrow> vector_store \<Rightarrow> error + vector_store" where
  "embedAndStore ext docs st = Chroma_fromDocuments ext docs IngestionService_chroma_args st"

text \<open>Decimal digits of a length, as a template literal prints a number.\<close>

fun show_nat :: "nat \<Rightarrow> string" where
  "show_nat n =
     (if n < 10 then [char_of (48 + n)] else show_nat (n div 10) @ [char_of (48 + n mod 10)])"

declare show_nat.simps [simp del]

definition INGESTION_COMPLETE :: string where
  "INGESTION_COMPLETE = 
       [CHR 0xE2, CHR 0x9C, CHR 0x85, CHR 0x20, CHR 0x49, CHR 0x6E, CHR 0x67, CHR 0x65,
       CHR 0x73, CHR 0x74, CHR 0x69, CHR 0x6F, CHR 0x6E, CHR 0x20, CHR 0x43, CHR 0x6F,
       CHR 0x6D, CHR 0x70, CHR 0x6C, CHR 0x65, CHR 0x74, CHR 0x65, CHR 0x21, CHR 0x20]"

definition summary :: "nat \<Rightarrow> string" where
  "summary n =
     INGESTION_COMPLETE @ show_nat n @ '' chunks stored in ChromaDB at ''
       @ IngestionService_VECTOR_STORE_PATH @ ''.''"

definition runIngestion ::
  "collaborators \<Rightarrow> vector_store \<Rightarrow> error + (string \<times> vector_store)" where
  "runIngestion ext st =
     (case loadDocuments ext of
        Inl e \<Rightarrow> Inl e
      | Inr docs \<Rightarrow>
          (let splitDocs = splitDocuments ext docs
           in case embedAndStore ext splitDocs st of
                Inl e \<Rightarrow> Inl e
              | Inr st' \<Rightarrow> Inr (summary (length splitDocs), st')))"

section \<open>Concrete inputs\<close>

text \<open>Small documents, stores, collaborators and services on which the results are run.\<close>

definition doc_paris :: Document where
  "doc_paris = \<lparr>pageContent = ''Paris is the capital of France.'', metadata = []\<rparr>"

definition doc_rome :: Document where
  "doc_rome = \<lparr>pageContent = ''Rome is the capital of Italy.'', metadata = []\<rparr>"

definition empty_store :: vector_store where
  "empty_store = (\<lambda>k. [])"



definition echo_model :: model_fn where
  "echo_model p = Inr (concat (map snd p))"

definition quiet_world :: collaborators where
  "quiet_world =
     \<lparr>pdf_load = Inr [], split_text = (\<lambda>chunkSize chunkOverlap t. [t]),
      embed = (\<lambda>t. Inr [int (length t)]), store_reachable = True,
      similarity_search = (\<lambda>c q. Inr (map snd c))\<rparr>"

definition stale_state :: RAGState where
  "stale_state = \<lparr>question = ''Which capital?'', documents = [doc_paris], answer = ''stale''\<rparr>"

definition fresh_state :: RAGState where
  "fresh_state = \<lparr>question = ''Which capital?'', documents = [doc_paris], answer = []\<rparr>"



definition bound_service :: ChatService where
  "bound_service =
     \<lparr>retriever = Some (similarity_search quiet_world
                          (collection_of ChatService_chroma_args empty_store)),
      model = echo_model, graph = None\<rparr>"

definition seeded_store :: vector_store where
  "seeded_store =
     empty_store((''http://host.docker.internal:8000'', ''test_collection_name'')
                   := [([29], doc_rome)])"

definition written_store :: vector_store where
  "written_store =
     empty_store((''http://host.docker.internal:8000'', ''test_collection_name'')
                   := [([31], doc_paris)])"

definition paris_service :: ChatService where
  "paris_service =
     \<lparr>retriever = Some (similarity_search quiet_world [([31], doc_paris)]),
      model = echo_model, graph = None\<rparr>"

section \<open>The graph the source builds, and the rendered prompt\<close>

text \<open>
  The builder holds the three edges and no node, so both names on the edges are unknown
  to it.
\<close>

lemma graphBuilder_eq:
  "graphBuilder =
     \<lparr>graph_nodes = [],
      graph_edges = [(START, ''retrieve''), (''retrieve'', ''generate''), (''generate'', END)]\<rparr>"
  by (simp add: graphBuilder_def addEdge_def new_StateGraph_def)

lemma unknown_nodes_graphBuilder:
  "unknown_nodes graphBuilder = [''retrieve'', ''retrieve'', ''generate'', ''generate'']"
  by (simp add: unknown_nodes_def graphBuilder_eq START_def END_def)

lemma compile_graphBuilder: "compile graphBuilder = Inl (Error ''Unknown node retrieve'')"
  by (simp add: compile_def unknown_nodes_graphBuilder)

lemma initializeGraph_fails: "initializeGraph svc = Inl (Error ''Unknown node retrieve'')"
  by (simp add: initializeGraph_def compile_graphBuilder)

lemma limit_eq: "RECURSION_LIMIT = Suc (Suc (Suc 22))"
  by (simp add: RECURSION_LIMIT_def)



text \<open>
  For comparison, the same edges over the table \<^verbatim>\<open>nodes\<close>: there a run calls the retrieve
  node on the incoming state, then the generate node on the state the retrieve node
  returned, and stops within the step bound.
\<close>

lemma run_from_three_steps:
  "run_from (Suc (Suc (Suc n))) (nodes r m) (graph_edges graphBuilder) START s =
     (case r (question s) of
        Inl e \<Rightarrow> ([(''retrieve'', s)], Inl e)
      | Inr docs \<Rightarrow>
          ([(''retrieve'', s), (''generate'', s\<lparr>documents := docs\<rparr>)],
           generate m (s\<lparr>documents := docs\<rparr>)))"
  by (simp add: graphBuilder_eq nodes_def START_def END_def retrieve_def split: sum.splits)

lemma run_from_nodes:
  "run_from RECURSION_LIMIT (nodes r m) (graph_edges graphBuilder) START s =
     (case r (question s) of
        Inl e \<Rightarrow> ([(''retrieve'', s)], Inl e)
      | Inr docs \<Rightarrow>
          ([(''retrieve'', s), (''generate'', s\<lparr>documents := docs\<rparr>)],
           generate m (s\<lparr>documents := docs\<rparr>)))"
  unfolding limit_eq by (rule run_from_three_steps)

text \<open>Both placeholders of the template have a value, so formatting never fails.\<close>

lemma assemble_eq:
  "assemble input =
     Inr [(System, SYSTEM_INSTRUCTION @ [LF, LF] @ ''<Context>'' @ [LF] @ chain_context input
                     @ [LF] @ ''</Context>''),
          (Human, question input)]"
  by (simp add: assemble_def promptTemplate_def chain_inputs_def)

lemma length_join:
  "length (join sep xs) = sum_list (map length xs) + length sep * (length xs - 1)"
  by (induction sep xs rule: join.induct) simp_all

lemma join_append:
  "xs \<noteq> [] \<Longrightarrow> ys \<noteq> [] \<Longrightarrow> join sep (xs @ ys) = join sep xs @ sep @ join sep ys"
  by (induction sep xs rule: join.induct) (auto simp: neq_Nil_conv)

lemma join_concat:
  "join sep xs = concat (map (\<lambda>x. x @ sep) (butlast xs)) @ (if xs = [] then [] else last xs)"
  by (induction sep xs rule: join.induct) simp_all


lemma show_nat_0: "show_nat 0 = ''0''"
  by code_simp

section \<open>Results\<close>

text \<open>
  Claim C1, as amended. \<^verbatim>\<open>runIngestion\<close> has no check for an empty document set: when the
  loader yields zero documents, the documents split into zero chunks, the store write is
  called with an empty chunk list and, when that write does not fail, the call returns the
  success summary reporting 0 chunks; the store is left as it was, so no vectors are
  written.
\<close>

theorem empty_ingestion_reports_zero_chunks:
  "pdf_load ext = Inr [] \<Longrightarrow> store_reachable ext \<Longrightarrow>
     runIngestion ext st = Inr (summary 0, st)"
  by (simp add: runIngestion_def loadDocuments_def splitDocuments_def
      splitter_splitDocuments_def embedAndStore_def Chroma_fromDocuments_def collection_of_def)

theorem empty_ingestion_reports_zero_chunks_witness:
  "pdf_load quiet_world = Inr [] \<and> store_reachable quiet_world
   \<and> runIngestion quiet_world seeded_store = Inr (summary 0, seeded_store)
   \<and> seeded_store (''http://host.docker.internal:8000'', ''test_collection_name'')
       = [([29], doc_rome)]"
proof -
  have l: "pdf_load quiet_world = Inr []" and u: "store_reachable quiet_world"
    by (simp_all add: quiet_world_def)
  from empty_ingestion_reports_zero_chunks [OF l u, of seeded_store] l u show ?thesis
    by (simp add: seeded_store_def)
qed

text \<open>
  Claim C1 as stated (the call fails whenever the source yields zero documents and returns
  no success summary) does not hold: with a loader that yields no documents the call
  returns the summary \<^verbatim>\<open>... 0 chunks stored in ChromaDB at chroma_data.\<close>
\<close>

theorem empty_ingestion_counterexample:
  "pdf_load quiet_world = Inr []
   \<and> runIngestion quiet_world empty_store = Inr (summary 0, empty_store)
   \<and> summary 0 = INGESTION_COMPLETE @ ''0 chunks stored in ChromaDB at chroma_data.''"
  by (simp add: quiet_world_def runIngestion_def loadDocuments_def splitDocuments_def
      splitter_splitDocuments_def embedAndStore_def Chroma_fromDocuments_def
      collection_of_def summary_def show_nat_0 IngestionService_VECTOR_STORE_PATH_def)


text \<open>
  Claim C3. Before initialization has completed, that is on a fresh service, on a service
  whose retriever is bound and whose graph is not yet compiled, and on any service whose
  graph is unset, \<^verbatim>\<open>chat\<close> fails with the error \<^verbatim>\<open>Chat graph not initialized.\<close> and returns
  no answer.
\<close>

theorem chat_before_initialization:
  "chat (new_ChatService m) q = Inl NOT_INITIALIZED
   \<and> (\<forall>svc. initializeRetriever ext st (new_ChatService m) = Inr svc
          \<longrightarrow> chat svc q = Inl NOT_INITIALIZED)
   \<and> (\<forall>svc. graph svc = None \<longrightarrow> chat svc q = Inl NOT_INITIALIZED)"
  by (auto simp: chat_def new_ChatService_def initializeRetriever_def split: sum.splits)

theorem chat_before_initialization_witness:
  "initializeRetriever quiet_world empty_store (new_ChatService echo_model) = Inr bound_service
   \<and> graph bound_service = None
   \<and> chat bound_service ''Which capital?'' = Inl NOT_INITIALIZED
   \<and> chat (new_ChatService echo_model) ''Which capital?'' = Inl NOT_INITIALIZED"
proof -
  have b: "initializeRetriever quiet_world empty_store (new_ChatService echo_model)
             = Inr bound_service"
    by (simp add: initializeRetriever_def Chroma_fromExistingCollection_def quiet_world_def
        new_ChatService_def bound_service_def)
  have n: "graph bound_service = None"
    by (simp add: bound_service_def)
  from chat_before_initialization [of echo_model "''Which capital?''" quiet_world empty_store]
       b n
  show ?thesis by simp
qed

text \<open>
  Claim C4. The claim is about \<^verbatim>\<open>chat\<close> on an initialized service. In the source
  \<^verbatim>\<open>initializeGraph\<close> fails on every service, so \<^verbatim>\<open>onModuleInit\<close> never completes and
  leaves the graph unset: after the retriever is bound, \<^verbatim>\<open>chat\<close> still fails with
  \<^verbatim>\<open>Chat graph not initialized.\<close> where the claim has it return the answer of a run.
\<close>

theorem chat_after_onModuleInit_fails:
  "initializeGraph svc = Inl (Error ''Unknown node retrieve'')
   \<and> onModuleInit ext st svc =
       (case initializeRetriever ext st svc of
          Inl e \<Rightarrow> Inl e
        | Inr svc' \<Rightarrow> Inl (Error ''Unknown node retrieve''))
   \<and> initializeRetriever quiet_world empty_store (new_ChatService echo_model)
       = Inr bound_service
   \<and> onModuleInit quiet_world empty_store (new_ChatService echo_model)
       = Inl (Error ''Unknown node retrieve'')
   \<and> chat bound_service ''Which capital?'' = Inl (Error ''Chat graph not initialized.'')"
proof -
  have b: "initializeRetriever quiet_world empty_store (new_ChatService echo_model)
             = Inr bound_service"
    by (simp add: initializeRetriever_def Chroma_fromExistingCollection_def quiet_world_def
        new_ChatService_def bound_service_def)
  have o: "onModuleInit ext st svc =
             (case initializeRetriever ext st svc of
                Inl e \<Rightarrow> Inl e
              | Inr svc' \<Rightarrow> Inl (Error ''Unknown node retrieve''))" for ext st svc
    by (simp add: onModuleInit_def initializeGraph_fails split: sum.splits)
  have c: "chat bound_service ''Which capital?'' = Inl (Error ''Chat graph not initialized.'')"
    by (simp add: chat_def bound_service_def NOT_INITIALIZED_def)
  from b o [of quiet_world empty_store "new_ChatService echo_model"]
  have "onModuleInit quiet_world empty_store (new_ChatService echo_model)
          = Inl (Error ''Unknown node retrieve'')"
    by simp
  with b o c initializeGraph_fails show ?thesis
    by (intro conjI)
qed




text \<open>
  Claim C7. The rendered prompt has two turns. The system turn is the fixed instruction,
  given here byte for byte (its fourth part quotes the fixed refusal sentence between
  double quotes and asterisks), followed by the context block: the text of every retrieved
  document but the last, each followed by a blank line, in the order of the list, then the
  text of the last document. The human turn is the question as it is. No text is moved,
  cut or dropped, and a document that occurs twice is rendered twice.
\<close>

theorem prompt_assembly:
  "assemble \<lparr>question = q, documents = docs, answer = a\<rparr> =
     Inr [(System,
               [CHR 0xEB, CHR 0x8B, CHR 0xB9, CHR 0xEC, CHR 0x8B, CHR 0xA0, CHR 0xEC, CHR 0x9D,
                CHR 0x80, CHR 0x20, CHR 0xEC, CHR 0xA0, CHR 0x9C, CHR 0xEA, CHR 0xB3, CHR 0xB5,
                CHR 0xEB, CHR 0x90, CHR 0x9C, CHR 0x20, CHR 0xEB, CHR 0xAC, CHR 0xB8, CHR 0xEC,
                CHR 0x84, CHR 0x9C, CHR 0xEB, CHR 0xA5, CHR 0xBC, CHR 0x20, CHR 0xEC, CHR 0xB0,
                CHR 0xB8, CHR 0xEC, CHR 0xA1, CHR 0xB0, CHR 0xED, CHR 0x95, CHR 0x98, CHR 0xEC,
                CHR 0x97, CHR 0xAC, CHR 0x20, CHR 0xEC, CHR 0x82, CHR 0xAC, CHR 0xEC, CHR 0x9A,
                CHR 0xA9, CHR 0xEC, CHR 0x9E, CHR 0x90, CHR 0xEC, CHR 0x9D, CHR 0x98, CHR 0x20,
                CHR 0xEC, CHR 0xA7, CHR 0x88, CHR 0xEB, CHR 0xAC, CHR 0xB8, CHR 0xEC, CHR 0x97,
                CHR 0x90, CHR 0x20, CHR 0xEB, CHR 0x8B, CHR 0xB5, CHR 0xEB, CHR 0xB3, CHR 0x80,
                CHR 0xED, CHR 0x95, CHR 0x98, CHR 0xEB, CHR 0x8A, CHR 0x94, CHR 0x20, CHR 0xEC,
                CHR 0xA0, CHR 0x84, CHR 0xEB, CHR 0xAC, CHR 0xB8, CHR 0xEA, CHR 0xB0, CHR 0x80,
                CHR 0x20, CHR 0xEC, CHR 0xB1, CHR 0x97, CHR 0xEB, CHR 0xB4, CHR 0x87, CHR 0xEC,
                CHR 0x9E, CHR 0x85, CHR 0xEB, CHR 0x8B, CHR 0x88, CHR 0xEB, CHR 0x8B, CHR 0xA4,
                CHR 0x2E, CHR 0x20]
             @ [CHR 0xEC, CHR 0x82, CHR 0xAC, CHR 0xEC, CHR 0x9A, CHR 0xA9, CHR 0xEC, CHR 0x9E,
                CHR 0x90, CHR 0xEC, CHR 0x97, CHR 0x90, CHR 0xEA, CHR 0xB2, CHR 0x8C, CHR 0x20,
                CHR 0xEC, CHR 0xA0, CHR 0x9C, CHR 0xEA, CHR 0xB3, CHR 0xB5, CHR 0xEB, CHR 0x90,
                CHR 0x9C, CHR 0x20, CHR 0x3C, CHR 0x43, CHR 0x6F, CHR 0x6E, CHR 0x74, CHR 0x65,
                CHR 0x78, CHR 0x74, CHR 0x3E, CHR 0x20, CHR 0xEB, CHR 0x82, CHR 0xB4, CHR 0xEC,
                CHR 0x97, CHR 0x90, CHR 0xEC, CHR 0x84, CHR 0x9C, CHR 0xEB, CHR 0xA7, CHR 0x8C,
                CHR 0x20, CHR 0xEB, CHR 0x8B, CHR 0xB5, CHR 0xEB, CHR 0xB3, CHR 0x80, CHR 0xED,
                CHR 0x95, CHR 0xB4, CHR 0xEC, CHR 0x95, CHR 0xBC, CHR 0x20, CHR 0xED, CHR 0x95,
                CHR 0xA9, CHR 0xEB, CHR 0x8B, CHR 0x88, CHR 0xEB, CHR 0x8B, CHR 0xA4, CHR 0x2E,
                CHR 0x20]
             @ [CHR 0xEB, CHR 0xA7, CHR 0x8C, CHR 0xEC, CHR 0x95, CHR 0xBD, CHR 0x20, CHR 0x3C,
                CHR 0x43, CHR 0x6F, CHR 0x6E, CHR 0x74, CHR 0x65, CHR 0x78, CHR 0x74, CHR 0x3E,
                CHR 0xEC, CHR 0x97, CHR 0x90, CHR 0xEC, CHR 0x84, CHR 0x9C, CHR 0x20, CHR 0xEB,
                CHR 0x8B, CHR 0xB5, CHR 0xEB, CHR 0xB3, CHR 0x80, CHR 0xEC, CHR 0x9D, CHR 0x84,
                CHR 0x20, CHR 0xEC, CHR 0xB0, CHR 0xBE, CHR 0xEC, CHR 0x9D, CHR 0x84, CHR 0x20,
                CHR 0xEC, CHR 0x88, CHR 0x98, CHR 0x20, CHR 0xEC, CHR 0x97, CHR 0x86, CHR 0xEB,
                CHR 0x8B, CHR 0xA4, CHR 0xEB, CHR 0xA9, CHR 0xB4, CHR 0x2C, CHR 0x20]
             @ [CHR 0x2A, CHR 0x2A, CHR 0x22]
             @ [CHR 0xEC, CHR 0xA3, CHR 0x84, CHR 0xEC, CHR 0x86, CHR 0xA1, CHR 0xED, CHR 0x95,
                CHR 0x98, CHR 0xEC, CHR 0xA7, CHR 0x80, CHR 0xEB, CHR 0xA7, CHR 0x8C, CHR 0x2C,
                CHR 0x20, CHR 0xEC, CHR 0xA0, CHR 0x9C, CHR 0xEA, CHR 0xB0, CHR 0x80, CHR 0x20,
                CHR 0xEC, CHR 0xB0, CHR 0xB8, CHR 0xEC, CHR 0xA1, CHR 0xB0, CHR 0xED, CHR 0x95,
                CHR 0xA0, CHR 0x20, CHR 0xEC, CHR 0x88, CHR 0x98, CHR 0x20, CHR 0xEC, CHR 0x9E,
                CHR 0x88, CHR 0xEB, CHR 0x8A, CHR 0x94, CHR 0x20, CHR 0xEB, CHR 0xAC, CHR 0xB8,
                CHR 0xEC, CHR 0x84, CHR 0x9C, CHR 0xEC, CHR 0x97, CHR 0x90, CHR 0xEC, CHR 0x84,
                CHR 0x9C, CHR 0xEB, CHR 0x8A, CHR 0x94, CHR 0x20, CHR 0xED, CHR 0x95, CHR 0xB4,
                CHR 0xEB, CHR 0x8B, CHR 0xB9, CHR 0x20, CHR 0xEB, CHR 0x82, CHR 0xB4, CHR 0xEC,
                CHR 0x9A, CHR 0xA9, CHR 0xEC, CHR 0x9D, CHR 0x84, CHR 0x20, CHR 0xEC, CHR 0xB0,
                CHR 0xBE, CHR 0xEC, CHR 0x9D, CHR 0x84, CHR 0x20, CHR 0xEC, CHR 0x88, CHR 0x98,
                CHR 0x20, CHR 0xEC, CHR 0x97, CHR 0x86, CHR 0xEC, CHR 0x8A, CHR 0xB5, CHR 0xEB,
                CHR 0x8B, CHR 0x88, CHR 0xEB, CHR 0x8B, CHR 0xA4, CHR 0x2E]
             @ [CHR 0x22, CHR 0x2A, CHR 0x2A]
             @ [CHR 0xEB, CHR 0x9D, CHR 0xBC, CHR 0xEA, CHR 0xB3, CHR 0xA0, CHR 0x20, CHR 0xEB,
                CHR 0x8B, CHR 0xB5, CHR 0xEB, CHR 0xB3, CHR 0x80, CHR 0xED, CHR 0x95, CHR 0x98,
                CHR 0xEC, CHR 0x84, CHR 0xB8, CHR 0xEC, CHR 0x9A, CHR 0x94, CHR 0x2E]
             @ [CHR 0x0A, CHR 0x0A] @ ''<Context>'' @ [CHR 0x0A]
             @ concat (map (\<lambda>d. pageContent d @ [CHR 0x0A, CHR 0x0A]) (butlast docs))
             @ (if docs = [] then [] else pageContent (last docs))
             @ [CHR 0x0A] @ ''</Context>''),
          (Human, q)]
   \<and> length (join [LF, LF] (map pageContent docs)) =
       sum_list (map (\<lambda>d. length (pageContent d)) docs) + 2 * (length docs - 1)"
  (is "?prompt \<and> ?size")
proof -
  have ctx: "join [CHR 0x0A, CHR 0x0A] (map pageContent docs) =
               concat (map (\<lambda>d. pageContent d @ [CHR 0x0A, CHR 0x0A]) (butlast docs))
               @ (if docs = [] then [] else pageContent (last docs))"
    by (simp add: join_concat map_butlast [symmetric] last_map comp_def)
  have p: "assemble \<lparr>question = q, documents = docs, answer = a\<rparr> =
             Inr [(System, SYSTEM_INSTRUCTION @ [LF, LF] @ ''<Context>'' @ [LF]
                             @ join [LF, LF] (map pageContent docs) @ [LF] @ ''</Context>''),
                  (Human, q)]"
    by (simp add: assemble_eq chain_context_def)
  have "?prompt"
    unfolding p LF_def ctx
    by (simp add: SYSTEM_INSTRUCTION_def SYSTEM_LITERAL_1_def SYSTEM_LITERAL_2_def
        SYSTEM_LITERAL_3_def SYSTEM_LITERAL_4_def)
  moreover have "?size"
    by (simp add: length_join comp_def)
  ultimately show ?thesis
    by (rule conjI)
qed

theorem prompt_assembly_witness:
  "assemble \<lparr>question = ''Which capital?'', documents = [doc_rome, doc_paris, doc_rome],
             answer = []\<rparr> =
     Inr [(System, SYSTEM_INSTRUCTION @ [CHR 0x0A, CHR 0x0A] @ ''<Context>'' @ [CHR 0x0A]
                     @ ''Rome is the capital of Italy.'' @ [CHR 0x0A, CHR 0x0A]
                     @ ''Paris is the capital of France.'' @ [CHR 0x0A, CHR 0x0A]
                     @ ''Rome is the capital of Italy.'' @ [CHR 0x0A] @ ''</Context>''),
          (Human, ''Which capital?'')]
   \<and> length (join [LF, LF] (map pageContent [doc_rome, doc_paris, doc_rome])) = 93"
  using prompt_assembly [of "''Which capital?''" "[doc_rome, doc_paris, doc_rome]" "[]"]
  by (simp add: doc_paris_def doc_rome_def SYSTEM_INSTRUCTION_def SYSTEM_LITERAL_1_def
      SYSTEM_LITERAL_2_def SYSTEM_LITERAL_3_def SYSTEM_LITERAL_4_def)

text \<open>
  Claim C8. The options the ingestion service passes to the store when it writes equal the
  options the chat service passes when it binds its retriever (same collection name, same
  endpoint). So the chunks a successful write appends are in the collection the chat
  service reads, and the retriever the chat service binds searches the collection the
  ingestion service writes.
\<close>

theorem ingestion_and_chat_share_collection:
  "IngestionService_chroma_args = ChatService_chroma_args
   \<and> (embedAndStore ext docs st = Inr st' \<longrightarrow>
        (\<exists>vectors. embed_all (embed ext) (map pageContent docs) = Inr vectors
           \<and> collection_of ChatService_chroma_args st'
               = collection_of ChatService_chroma_args st @ zip vectors docs))
   \<and> (initializeRetriever ext st' svc = Inr svc' \<longrightarrow>
        retriever svc'
          = Some (similarity_search ext (collection_of IngestionService_chroma_args st')))"
  by (auto simp: IngestionService_chroma_args_def ChatService_chroma_args_def
      IngestionService_COLLECTION_NAME_def ChatService_COLLECTION_NAME_def
      embedAndStore_def Chroma_fromDocuments_def collection_of_def
      initializeRetriever_def Chroma_fromExistingCollection_def
      split: sum.splits if_splits)

theorem ingestion_and_chat_share_collection_witness:
  "embedAndStore quiet_world [doc_paris] empty_store = Inr written_store
   \<and> collection_of ChatService_chroma_args written_store = [([31], doc_paris)]
   \<and> initializeRetriever quiet_world written_store (new_ChatService echo_model)
       = Inr paris_service
   \<and> retriever paris_service
       = Some (similarity_search quiet_world
                 (collection_of IngestionService_chroma_args written_store))"
proof -
  have e: "embed_all (embed quiet_world) (map pageContent [doc_paris]) = Inr [[31]]"
    by (simp add: quiet_world_def doc_paris_def)
  have w: "embedAndStore quiet_world [doc_paris] empty_store = Inr written_store"
    unfolding embedAndStore_def Chroma_fromDocuments_def e
    by (simp add: quiet_world_def collection_of_def IngestionService_chroma_args_def
        IngestionService_COLLECTION_NAME_def written_store_def empty_store_def)
  have i: "initializeRetriever quiet_world written_store (new_ChatService echo_model)
             = Inr paris_service"
    by (simp add: initializeRetriever_def Chroma_fromExistingCollection_def quiet_world_def
        collection_of_def ChatService_chroma_args_def ChatService_COLLECTION_NAME_def
        written_store_def new_ChatService_def paris_service_def)
  note shared = ingestion_and_chat_share_collection
                  [of quiet_world "[doc_paris]" empty_store written_store
                      "new_ChatService echo_model" paris_service]
  from shared [THEN conjunct2, THEN conjunct1, THEN mp, OF w]
  obtain vectors where
    v: "embed_all (embed quiet_world) (map pageContent [doc_paris]) = Inr vectors"
    and c: "collection_of ChatService_chroma_args written_store
              = collection_of ChatService_chroma_args empty_store @ zip vectors [doc_paris]"
    by blast
  from v e have "vectors = [[31]]"
    by simp
  with c have c': "collection_of ChatService_chroma_args written_store = [([31], doc_paris)]"
    by (simp add: collection_of_def empty_store_def)
  note r = shared [THEN conjunct2, THEN conjunct2, THEN mp, OF i]
  show ?thesis
    by (intro conjI) (rule w, rule c', rule i, rule r)
qed

text \<open>
  Claim C10. The generate node does not read the incoming answer: two states with the same
  question and the same documents give the same rendered prompt and, for the same model,
  the same result.
\<close>

theorem generate_ignores_incoming_answer:
  "question s1 = question s2 \<Longrightarrow> documents s1 = documents s2 \<Longrightarrow>
     assemble (generate_input s1) = assemble (generate_input s2)
     \<and> generate m s1 = generate m s2"
proof -
  assume q: "question s1 = question s2" and d: "documents s1 = documents s2"
  have p: "assemble (generate_input s1) = assemble (generate_input s2)"
    by (simp add: assemble_eq chain_context_def generate_input_def q d)
  have upd: "s1\<lparr>answer := a\<rparr> = s2\<lparr>answer := a\<rparr>" for a
    using q d by (cases s1, cases s2) simp
  have "generate m s1 = generate m s2"
    by (simp add: generate_def ragChain_def p upd split: sum.splits)
  with p show ?thesis by simp
qed

theorem generate_ignores_incoming_answer_witness:
  "question stale_state = question fresh_state
   \<and> documents stale_state = documents fresh_state
   \<and> answer stale_state \<noteq> answer fresh_state
   \<and> assemble (generate_input stale_state) = assemble (generate_input fresh_state)
   \<and> generate echo_model stale_state = generate echo_model fresh_state"
proof -
  have q: "question stale_state = question fresh_state"
    and d: "documents stale_state = documents fresh_state"
    and a: "answer stale_state \<noteq> answer fresh_state"
    by (simp_all add: stale_state_def fresh_state_def)
  from generate_ignores_incoming_answer [OF q d, of echo_model] q d a show ?thesis
    by simp
qed

end
